theory Spec2Isabelle
  imports Main
begin

section \<open>Python values used by \<open>app.py\<close>\<close>

text \<open>
  A Python \<open>str\<close> is a sequence of Unicode code points, so it is modelled as a list of
  natural numbers; \<open>ascii\<close> embeds the ASCII literals of the source.
\<close>

type_synonym pystr = "nat list"

definition ascii :: "string \<Rightarrow> pystr" where
  "ascii s = map of_char s"

text \<open>
  \<open>str.isspace\<close> on one code point: the characters that \<open>str.strip()\<close> removes
  (U+0009..U+000D, U+001C..U+0020, U+0085, U+00A0, U+1680, U+2000..U+200A, U+2028,
  U+2029, U+202F, U+205F, U+3000).
\<close>

definition py_isspace :: "nat \<Rightarrow> bool" where
  "py_isspace c \<longleftrightarrow>
     (9 \<le> c \<and> c \<le> 13) \<or> (28 \<le> c \<and> c \<le> 32) \<or> c = 133 \<or> c = 160 \<or> c = 5760 \<or>
     (8192 \<le> c \<and> c \<le> 8202) \<or> c = 8232 \<or> c = 8233 \<or> c = 8239 \<or> c = 8287 \<or> c = 12288"

text \<open>\<open>s.strip()\<close>: leading and trailing whitespace removed.\<close>

definition strip :: "pystr \<Rightarrow> pystr" where
  "strip s = rev (dropWhile py_isspace (rev (dropWhile py_isspace s)))"

text \<open>\<open>s.split(sep)\<close> for a one-character separator; the result is never empty.\<close>

fun split_chr :: "nat \<Rightarrow> pystr \<Rightarrow> pystr list" where
  "split_chr sep [] = [[]]"
| "split_chr sep (c # cs) =
     (if c = sep then [] # split_chr sep cs
      else (case split_chr sep cs of
              [] \<Rightarrow> [[c]]
            | w # ws \<Rightarrow> (c # w) # ws))"

text \<open>The code point of \<open>@\<close> and of the apostrophe.\<close>

definition at_sign :: nat where
  "at_sign = 64"

definition apostrophe :: nat where
  "apostrophe = 39"

text \<open>Dictionaries and lists built by the handlers (keyword arguments, JSON bodies).\<close>

datatype pyval =
    PStr pystr
  | PInt int
  | PList "pyval list"
  | PDict "(pystr \<times> pyval) list"

text \<open>\<open>d[k]\<close> on a dictionary value; \<open>None\<close> when the key is absent or the value is no dictionary.\<close>

fun dict_get :: "pyval \<Rightarrow> pystr \<Rightarrow> pyval option" where
  "dict_get (PDict kvs) k = map_of kvs k"
| "dict_get _ k = None"

section \<open>Exceptions\<close>

text \<open>
  The exception classes that the \<open>except\<close> clauses of \<open>send_email\<close> name and that
  exist: three classes imported from \<open>botocore.exceptions\<close> and the error class
  \<open>MessageRejected\<close> of the SES client. A raised exception (an instance of \<open>Exception\<close>)
  carries the named classes it is an instance of and its \<open>str()\<close>.
\<close>

datatype exc_class =
    MessageRejected
  | NoCredentialsError
  | PartialCredentialsError
  | EndpointConnectionError

record py_exception =
  exc_classes :: "exc_class list"
  exc_str :: pystr

definition isinstance :: "py_exception \<Rightarrow> exc_class \<Rightarrow> bool" where
  "isinstance e c \<longleftrightarrow> c \<in> set (exc_classes e)"

text \<open>
  The attribute lookup \<open>ses_client.exceptions.<name>\<close>, for the two names the handler
  looks up. The namespace holds the error classes of the SES service: \<open>MessageRejected\<close>
  is one of them, \<open>ThrottlingException\<close> is not (the service defines no error of that
  name). The lookup of a name that is no class of the client raises \<open>AttributeError\<close>:
  that is \<open>None\<close> here. The other error classes of the client are left out.
\<close>

definition ses_exceptions :: "pystr \<rightharpoonup> exc_class" where
  "ses_exceptions = [ascii ''MessageRejected'' \<mapsto> MessageRejected]"

text \<open>
  What a handler raises: \<open>fastapi.HTTPException(status_code, detail)\<close>, or the
  \<open>AttributeError\<close> of a failed lookup of the given name in \<open>ses_client.exceptions\<close>, which
  nothing in the handler catches.
\<close>

datatype raised =
    HTTPException nat pystr
  | AttributeError pystr

section \<open>The process and its collaborators\<close>

type_synonym env = "pystr \<rightharpoonup> pystr"

text \<open>\<open>os.getenv(key)\<close> and \<open>os.getenv(key, default)\<close>.\<close>

definition getenv :: "env \<Rightarrow> pystr \<Rightarrow> pystr option" where
  "getenv environ key = environ key"

definition getenv_default :: "env \<Rightarrow> pystr \<Rightarrow> pystr \<Rightarrow> pystr" where
  "getenv_default environ key dflt = (case environ key of None \<Rightarrow> dflt | Some v \<Rightarrow> v)"

text \<open>
  \<open>load_dotenv()\<close>: the variables of the \<open>.env\<close> file are added to the environment;
  a variable that is already set keeps its value.
\<close>

definition load_dotenv :: "env \<Rightarrow> env \<Rightarrow> env" where
  "load_dotenv dotenv environ = dotenv ++ environ"

text \<open>\<open>boto3.client(service, region_name=region)\<close>: the handle the module keeps.\<close>

record client =
  service_name :: pystr
  region_name :: pystr

definition boto3_client :: "pystr \<Rightarrow> pystr \<Rightarrow> client" where
  "boto3_client service r = \<lparr>service_name = service, region_name = r\<rparr>"

text \<open>The module's globals, set when the module is loaded (lines 11 to 17).\<close>

record app =
  region :: pystr
  ses_client :: client

definition module_init :: "env \<Rightarrow> env \<Rightarrow> env \<times> app" where
  "module_init dotenv environ0 =
     (let environ = load_dotenv dotenv environ0;
          r = getenv_default environ (ascii ''AWS_REGION'') (ascii ''us-east-1'')
      in (environ, \<lparr>region = r, ses_client = boto3_client (ascii ''ses'') r\<rparr>))"

text \<open>The body of an HTTP response as \<open>requests\<close> returns it.\<close>

record http_response =
  resp_status :: int
  resp_text :: pystr

text \<open>
  What a request finds when it is handled: the environment of the process at that
  moment, and the outcome of each external call (\<open>Inl\<close> an exception raised,
  \<open>Inr\<close> the value returned).
\<close>

record world =
  environ :: env
  dns_resolve :: "pystr \<Rightarrow> pystr \<Rightarrow> py_exception + pystr list"
  provider_send :: "client \<Rightarrow> pyval \<Rightarrow> py_exception + pyval"
  requests_get :: "pystr \<Rightarrow> nat \<Rightarrow> py_exception + http_response"

text \<open>The effects of a handler, in the order it performs them.\<close>

datatype event =
    Getenv pystr
  | Resolve pystr pystr
  | SendEmail client pyval
  | HttpGet pystr nat

type_synonym 'a io = "event list \<times> (raised + 'a)"

section \<open>The handlers\<close>

text \<open>
  The parsed body of a request, as the framework hands it to the handler: the
  \<open>receiver_email\<close> is an address that \<open>EmailStr\<close> has accepted.
\<close>

record EmailRequest =
  receiver_email :: pystr
  subject :: pystr
  body_text :: pystr

definition validate_email_domain :: "world \<Rightarrow> pystr \<Rightarrow> bool io" where
  "validate_email_domain w email =
     (let domain = last (split_chr at_sign email) in
      ([Resolve domain (ascii ''MX'')],
       (case dns_resolve w domain (ascii ''MX'') of
          Inr _ \<Rightarrow> Inr True
        | Inl _ \<Rightarrow>
            Inl (HTTPException 400
                  (ascii ''Domain '' @ [apostrophe] @ domain @ [apostrophe] @
                   ascii '' has no MX records or cannot receive email'')))))"

text \<open>The keyword arguments of the call at lines 53 to 60.\<close>

definition send_email_kwargs :: "pystr \<Rightarrow> EmailRequest \<Rightarrow> pyval" where
  "send_email_kwargs source_email req =
     PDict [
       (ascii ''Source'', PStr source_email),
       (ascii ''Destination'', PDict [(ascii ''ToAddresses'', PList [PStr (receiver_email req)])]),
       (ascii ''Message'', PDict [
          (ascii ''Subject'', PDict [(ascii ''Data'', PStr (subject req))]),
          (ascii ''Body'', PDict [(ascii ''Text'', PDict [(ascii ''Data'', PStr (body_text req))])])])]"

text \<open>
  The \<open>except\<close> clauses of lines 64 to 90. The clauses are tried in the order of the
  source, and the class expression of a clause is evaluated when the clause is tried: a
  failed lookup in \<open>ses_client.exceptions\<close> raises \<open>AttributeError\<close> out of the handler,
  and the clauses after it are not tried.
\<close>

definition send_email_except :: "py_exception \<Rightarrow> raised" where
  "send_email_except e =
     (case ses_exceptions (ascii ''MessageRejected'') of
        None \<Rightarrow> AttributeError (ascii ''MessageRejected'')
      | Some message_rejected \<Rightarrow>
          if isinstance e message_rejected then
            HTTPException 400
              (ascii ''Email rejected by AWS SES (unverified sender/recipient or invalid content)'')
          else
            (case ses_exceptions (ascii ''ThrottlingException'') of
               None \<Rightarrow> AttributeError (ascii ''ThrottlingException'')
             | Some throttling_exception \<Rightarrow>
                 if isinstance e throttling_exception then
                   HTTPException 429 (ascii ''AWS SES rate limit exceeded. Please try again later.'')
                 else if isinstance e NoCredentialsError then
                   HTTPException 401 (ascii ''AWS credentials not found'')
                 else if isinstance e PartialCredentialsError then
                   HTTPException 401 (ascii ''Incomplete AWS credentials'')
                 else if isinstance e EndpointConnectionError then
                   HTTPException 503
                     (ascii ''Unable to reach AWS SES endpoint (check region or network)'')
                 else
                   HTTPException 500 (ascii ''Unexpected error: '' @ exc_str e)))"

definition send_email :: "app \<Rightarrow> world \<Rightarrow> EmailRequest \<Rightarrow> pyval io" where
  "send_email a w req =
     (let t0 = [Getenv (ascii ''SOURCE_EMAIL'')];
          not_configured =
            (t0, Inl (HTTPException 500 (ascii ''Source email not configured in environment'')))
      in
      (case getenv (environ w) (ascii ''SOURCE_EMAIL'') of
         None \<Rightarrow> not_configured
       | Some source_email \<Rightarrow>
           if source_email = [] then not_configured
           else if strip (subject req) = [] \<or> strip (body_text req) = [] then
             (t0, Inl (HTTPException 400 (ascii ''Subject and body cannot be empty'')))
           else
             (case validate_email_domain w (receiver_email req) of
                (t1, Inl err) \<Rightarrow> (t0 @ t1, Inl err)
              | (t1, Inr _) \<Rightarrow>
                  (let kwargs = send_email_kwargs source_email req;
                       t2 = [SendEmail (ses_client a) kwargs]
                   in
                   (case provider_send w (ses_client a) kwargs of
                      Inr _ \<Rightarrow>
                        (t0 @ t1 @ t2,
                         Inr (PDict [(ascii ''message'',
                                PStr (ascii ''Email successfully sent to '' @ receiver_email req))]))
                    | Inl e \<Rightarrow> (t0 @ t1 @ t2, Inl (send_email_except e)))))))"

definition test_aws :: "app \<Rightarrow> world \<Rightarrow> pyval io" where
  "test_aws a w =
     (let url = ascii ''https://email.'' @ region a @ ascii ''.amazonaws.com'' in
      ([HttpGet url 5],
       (case requests_get w url 5 of
          Inr r \<Rightarrow>
            Inr (PDict [(ascii ''status'', PInt (resp_status r)),
                        (ascii ''text'', PStr (take 100 (resp_text r)))])
        | Inl e \<Rightarrow> Inl (HTTPException 500 (ascii ''Network test failed: '' @ exc_str e)))))"

text \<open>
  The status of the HTTP response the framework sends: the status of the
  \<open>HTTPException\<close> raised, 500 (with no detail) for an exception that leaves the
  handler uncaught, or 200 when the handler returns.
\<close>

definition http_status :: "'a io \<Rightarrow> nat" where
  "http_status r =
     (case snd r of
        Inl (HTTPException status_code detail) \<Rightarrow> status_code
      | Inl (AttributeError name) \<Rightarrow> 500
      | Inr _ \<Rightarrow> 200)"

section \<open>Reading a trace\<close>

fun is_env_read :: "event \<Rightarrow> bool" where
  "is_env_read (Getenv _) = True"
| "is_env_read _ = False"

fun is_dns_lookup :: "event \<Rightarrow> bool" where
  "is_dns_lookup (Resolve _ _) = True"
| "is_dns_lookup _ = False"

fun is_provider_call :: "event \<Rightarrow> bool" where
  "is_provider_call (SendEmail _ _) = True"
| "is_provider_call _ = False"

definition env_reads :: "event list \<Rightarrow> event list" where
  "env_reads t = filter is_env_read t"

definition dns_lookups :: "event list \<Rightarrow> event list" where
  "dns_lookups t = filter is_dns_lookup t"

definition provider_calls :: "event list \<Rightarrow> event list" where
  "provider_calls t = filter is_provider_call t"

section \<open>The preconditions of the send operation\<close>

text \<open>
  The three checks of \<open>send_email\<close> (lines 44 to 50) as one predicate: \<open>SOURCE_EMAIL\<close> is
  set to the non-empty \<open>source\<close>, subject and body are not blank, and the MX lookup for
  the receiver's domain returns.
\<close>

definition passes_validation :: "world \<Rightarrow> EmailRequest \<Rightarrow> pystr \<Rightarrow> bool" where
  "passes_validation w req source \<longleftrightarrow>
     getenv (environ w) (ascii ''SOURCE_EMAIL'') = Some source \<and> source \<noteq> [] \<and>
     strip (subject req) \<noteq> [] \<and> strip (body_text req) \<noteq> [] \<and>
     (case dns_resolve w (last (split_chr at_sign (receiver_email req))) (ascii ''MX'') of
        Inr _ \<Rightarrow> True
      | Inl _ \<Rightarrow> False)"

section \<open>Concrete inputs\<close>

text \<open>
  A world given by the value of \<open>SOURCE_EMAIL\<close> and of \<open>AWS_REGION\<close>, and the outcomes of
  the MX lookup, of the provider's send operation and of the HTTP probe.
\<close>

definition example_world ::
  "pystr option \<Rightarrow> pystr option \<Rightarrow> (py_exception + pystr list) \<Rightarrow> (py_exception + pyval) \<Rightarrow>
   (py_exception + http_response) \<Rightarrow> world" where
  "example_world src reg dns prov probe =
     \<lparr>environ = (\<lambda>k. if k = ascii ''SOURCE_EMAIL'' then src
                      else if k = ascii ''AWS_REGION'' then reg else None),
      dns_resolve = (\<lambda>d t. dns),
      provider_send = (\<lambda>c k. prov),
      requests_get = (\<lambda>u t. probe)\<rparr>"

definition example_exception :: "exc_class list \<Rightarrow> py_exception" where
  "example_exception cs = \<lparr>exc_classes = cs, exc_str = ascii ''boom''\<rparr>"

definition example_request :: "pystr \<Rightarrow> pystr \<Rightarrow> EmailRequest" where
  "example_request subj body =
     \<lparr>receiver_email = ascii ''user@example.com'', subject = subj, body_text = body\<rparr>"

definition example_app :: app where
  "example_app = snd (module_init Map.empty Map.empty)"

section \<open>Facts about \<open>split\<close>\<close>

lemma split_chr_nonempty: "split_chr sep s \<noteq> []"
  by (induction s) (auto split: list.splits)

lemma split_chr_no_sep: "sep \<notin> set s \<Longrightarrow> split_chr sep s = [s]"
  by (induction s) (auto split: list.splits)

lemma split_chr_length: "length (split_chr sep s) = Suc (length (filter (\<lambda>c. c = sep) s))"
  by (induction s) (auto split: list.splits simp: split_chr_nonempty)

lemma split_chr_tail: "sep \<in> set s \<Longrightarrow> split_chr sep s = w # ws \<Longrightarrow> ws \<noteq> []"
proof -
  assume mem: "sep \<in> set s" and eq: "split_chr sep s = w # ws"
  from mem have "filter (\<lambda>c. c = sep) s \<noteq> []"
    by (simp add: filter_empty_conv)
  then have "2 \<le> length (split_chr sep s)"
    by (cases "filter (\<lambda>c. c = sep) s") (simp_all add: split_chr_length)
  with eq show "ws \<noteq> []" by auto
qed

lemma last_split_chr_Cons:
  "last (split_chr sep (c # cs)) =
     (if c = sep \<or> sep \<in> set cs then last (split_chr sep cs) else c # cs)"
proof (cases "c = sep")
  case True
  then show ?thesis by (simp add: split_chr_nonempty)
next
  case False
  show ?thesis
  proof (cases "sep \<in> set cs")
    case True
    obtain w ws where eq: "split_chr sep cs = w # ws"
      using split_chr_nonempty [of sep cs] by (cases "split_chr sep cs") auto
    with True have "ws \<noteq> []" by (rule split_chr_tail)
    with eq \<open>c \<noteq> sep\<close> True show ?thesis by simp
  next
    case no: False
    with False show ?thesis by (simp add: split_chr_no_sep)
  qed
qed

lemma last_split_chr_clean: "sep \<notin> set (last (split_chr sep s))"
proof (induction s)
  case Nil
  show ?case by simp
next
  case (Cons c cs)
  show ?case unfolding last_split_chr_Cons using Cons by auto
qed

lemma last_split_chr_suffix:
  "sep \<in> set s \<Longrightarrow> \<exists>pre. s = pre @ sep # last (split_chr sep s)"
proof (induction s)
  case Nil
  then show ?case by simp
next
  case (Cons c cs)
  show ?case
  proof (cases "sep \<in> set cs")
    case True
    with Cons.IH obtain pre where "cs = pre @ sep # last (split_chr sep cs)" by blast
    then have "c # cs = (c # pre) @ sep # last (split_chr sep cs)" by simp
    moreover from True have "last (split_chr sep (c # cs)) = last (split_chr sep cs)"
      by (subst last_split_chr_Cons) simp
    ultimately show ?thesis by metis
  next
    case False
    with Cons.prems have "c = sep" by simp
    with False have "last (split_chr sep (c # cs)) = cs"
      by (subst last_split_chr_Cons) (simp add: split_chr_no_sep)
    with \<open>c = sep\<close> have "c # cs = [] @ sep # last (split_chr sep (c # cs))" by simp
    then show ?thesis by blast
  qed
qed

section \<open>The paths through \<open>send_email\<close>\<close>

text \<open>
  One lemma for each way out of the handler: the configuration check, the blank check, the
  domain check, and the call of the provider.
\<close>

lemma send_email_unconfigured:
  "getenv (environ w) (ascii ''SOURCE_EMAIL'') = None \<or> getenv (environ w) (ascii ''SOURCE_EMAIL'') = Some [] \<Longrightarrow>
   send_email a w req =
     ([Getenv (ascii ''SOURCE_EMAIL'')],
      Inl (HTTPException 500 (ascii ''Source email not configured in environment'')))"
  by (auto simp: send_email_def Let_def)

lemma send_email_blank:
  "getenv (environ w) (ascii ''SOURCE_EMAIL'') = Some source \<Longrightarrow> source \<noteq> [] \<Longrightarrow>
   strip (subject req) = [] \<or> strip (body_text req) = [] \<Longrightarrow>
   send_email a w req =
     ([Getenv (ascii ''SOURCE_EMAIL'')],
      Inl (HTTPException 400 (ascii ''Subject and body cannot be empty'')))"
  by (auto simp: send_email_def Let_def)

lemma send_email_no_mx:
  "getenv (environ w) (ascii ''SOURCE_EMAIL'') = Some source \<Longrightarrow> source \<noteq> [] \<Longrightarrow>
   strip (subject req) \<noteq> [] \<Longrightarrow> strip (body_text req) \<noteq> [] \<Longrightarrow>
   dns_resolve w (last (split_chr at_sign (receiver_email req))) (ascii ''MX'') = Inl e \<Longrightarrow>
   send_email a w req =
     ([Getenv (ascii ''SOURCE_EMAIL''),
       Resolve (last (split_chr at_sign (receiver_email req))) (ascii ''MX'')],
      Inl (HTTPException 400
             (ascii ''Domain '' @ [apostrophe] @ last (split_chr at_sign (receiver_email req)) @
              [apostrophe] @ ascii '' has no MX records or cannot receive email'')))"
  by (simp add: send_email_def validate_email_domain_def Let_def)

lemma send_email_validated:
  "passes_validation w req source \<Longrightarrow>
   send_email a w req =
     ([Getenv (ascii ''SOURCE_EMAIL''),
       Resolve (last (split_chr at_sign (receiver_email req))) (ascii ''MX''),
       SendEmail (ses_client a) (send_email_kwargs source req)],
      (case provider_send w (ses_client a) (send_email_kwargs source req) of
         Inr _ \<Rightarrow>
           Inr (PDict [(ascii ''message'',
                  PStr (ascii ''Email successfully sent to '' @ receiver_email req))])
       | Inl e \<Rightarrow> Inl (send_email_except e)))"
  by (auto simp: passes_validation_def send_email_def validate_email_domain_def Let_def
      split: sum.splits)

lemma validation_cases:
  obtains
    (unconfigured) "getenv (environ w) (ascii ''SOURCE_EMAIL'') = None \<or>
                    getenv (environ w) (ascii ''SOURCE_EMAIL'') = Some []"
  | (blank) source where "getenv (environ w) (ascii ''SOURCE_EMAIL'') = Some source" "source \<noteq> []"
      "strip (subject req) = [] \<or> strip (body_text req) = []"
  | (no_mx) source e where "getenv (environ w) (ascii ''SOURCE_EMAIL'') = Some source" "source \<noteq> []"
      "strip (subject req) \<noteq> []" "strip (body_text req) \<noteq> []"
      "dns_resolve w (last (split_chr at_sign (receiver_email req))) (ascii ''MX'') = Inl e"
  | (valid) source where "passes_validation w req source"
proof (cases "getenv (environ w) (ascii ''SOURCE_EMAIL'')")
  case None
  then show ?thesis using unconfigured by simp
next
  case (Some source)
  show ?thesis
  proof (cases "source = []")
    case True
    with Some show ?thesis using unconfigured by simp
  next
    case ne: False
    show ?thesis
    proof (cases "strip (subject req) = [] \<or> strip (body_text req) = []")
      case True
      with Some ne show ?thesis using blank by blast
    next
      case nb: False
      show ?thesis
      proof (cases "dns_resolve w (last (split_chr at_sign (receiver_email req))) (ascii ''MX'')")
        case (Inl e)
        with Some ne nb show ?thesis using no_mx by blast
      next
        case (Inr answer)
        with Some ne nb have "passes_validation w req source"
          by (simp add: passes_validation_def)
        then show ?thesis by (rule valid)
      qed
    qed
  qed
qed

lemma send_email_returns_valid:
  assumes "snd (send_email a w req) = Inr v"
  obtains source where "passes_validation w req source"
proof (cases rule: validation_cases [where w = w and req = req])
  case unconfigured
  from send_email_unconfigured [OF this, of a req] assms show ?thesis by simp
next
  case (blank source)
  from send_email_blank [OF this, of a] assms show ?thesis by simp
next
  case (no_mx source e)
  from send_email_no_mx [OF this, of a] assms show ?thesis by simp
next
  case (valid source)
  then show ?thesis by (rule that)
qed

lemma send_email_env_reads:
  "env_reads (fst (send_email a w req)) = [Getenv (ascii ''SOURCE_EMAIL'')]"
proof (cases rule: validation_cases [where w = w and req = req])
  case unconfigured
  from send_email_unconfigured [OF this, of a req] show ?thesis by (simp add: env_reads_def)
next
  case (blank source)
  from send_email_blank [OF this, of a] show ?thesis by (simp add: env_reads_def)
next
  case (no_mx source e)
  from send_email_no_mx [OF this, of a] show ?thesis by (simp add: env_reads_def)
next
  case (valid source)
  from send_email_validated [OF this, of a] show ?thesis by (simp add: env_reads_def)
qed

lemma send_email_source_used:
  "SendEmail c k \<in> set (fst (send_email a w req)) \<Longrightarrow>
   c = ses_client a \<and>
   map_option PStr (getenv (environ w) (ascii ''SOURCE_EMAIL'')) = dict_get k (ascii ''Source'')"
proof (cases rule: validation_cases [where w = w and req = req])
  case unconfigured
  assume "SendEmail c k \<in> set (fst (send_email a w req))"
  with send_email_unconfigured [OF unconfigured, of a req] show ?thesis by simp
next
  case (blank source)
  assume "SendEmail c k \<in> set (fst (send_email a w req))"
  with send_email_blank [OF blank, of a] show ?thesis by simp
next
  case (no_mx source e)
  assume "SendEmail c k \<in> set (fst (send_email a w req))"
  with send_email_no_mx [OF no_mx, of a] show ?thesis by simp
next
  case (valid source)
  assume "SendEmail c k \<in> set (fst (send_email a w req))"
  with send_email_validated [OF valid, of a] valid show ?thesis
    by (auto simp: passes_validation_def send_email_kwargs_def)
qed

section \<open>The \<open>except\<close> clauses\<close>

text \<open>
  Only the first clause is ever decided: an exception that is no \<open>MessageRejected\<close>
  makes the handler look up \<open>ThrottlingException\<close>, and the lookup raises.
\<close>

lemma send_email_except_eval:
  "send_email_except e =
     (if isinstance e MessageRejected then
        HTTPException 400
          (ascii ''Email rejected by AWS SES (unverified sender/recipient or invalid content)'')
      else AttributeError (ascii ''ThrottlingException''))"
  by (simp add: send_email_except_def ses_exceptions_def ascii_def)

lemma send_email_provider_raises:
  assumes "passes_validation w req source"
      and "provider_send w (ses_client a) (send_email_kwargs source req) = Inl e"
  shows "snd (send_email a w req) =
           Inl (if isinstance e MessageRejected then
                  HTTPException 400
                    (ascii ''Email rejected by AWS SES (unverified sender/recipient or invalid content)'')
                else AttributeError (ascii ''ThrottlingException''))"
  using send_email_validated [OF assms(1), of a] assms(2)
  by (simp add: send_email_except_eval)

section \<open>The concrete inputs pass the checks\<close>

lemma example_valid:
  "passes_validation
     (example_world (Some (ascii ''noreply@example.org'')) reg (Inr answer) prov probe)
     (example_request (ascii ''Hello'') (ascii ''text'')) (ascii ''noreply@example.org'')"
  by (simp add: passes_validation_def example_world_def example_request_def getenv_def
      strip_def ascii_def py_isspace_def)

lemma example_provider:
  "provider_send (example_world src reg dns prov probe) c k = prov"
  by (simp add: example_world_def)

lemma example_app_region: "region example_app = ascii ''us-east-1''"
  by (simp add: example_app_def module_init_def load_dotenv_def getenv_default_def Let_def)

section \<open>The domain check\<close>

text \<open>
  Claim C3. For every address, \<open>validate_email_domain\<close> takes as the domain the part after
  the last \<open>@\<close> (the whole string when there is none), performs one MX lookup for that
  domain, returns \<open>True\<close> when the lookup returns, and when the lookup raises, whatever the
  exception, raises an \<open>HTTPException\<close> of status 400 whose detail quotes the domain.
\<close>

theorem validate_email_domain_mx:
  fixes w :: world and email :: pystr
  defines "domain \<equiv> last (split_chr at_sign email)"
  shows
    "at_sign \<notin> set domain
     \<and> (at_sign \<in> set email \<longrightarrow> (\<exists>local_part. email = local_part @ at_sign # domain))
     \<and> (at_sign \<notin> set email \<longrightarrow> domain = email)
     \<and> fst (validate_email_domain w email) = [Resolve domain (ascii ''MX'')]
     \<and> (\<forall>answer. dns_resolve w domain (ascii ''MX'') = Inr answer \<longrightarrow>
          snd (validate_email_domain w email) = Inr True)
     \<and> (\<forall>e. dns_resolve w domain (ascii ''MX'') = Inl e \<longrightarrow>
          snd (validate_email_domain w email) =
            Inl (HTTPException 400
                  (ascii ''Domain '' @ [apostrophe] @ domain @ [apostrophe] @
                   ascii '' has no MX records or cannot receive email'')))"
proof -
  have clean: "at_sign \<notin> set domain"
    unfolding domain_def by (rule last_split_chr_clean)
  have suffix: "at_sign \<in> set email \<longrightarrow> (\<exists>local_part. email = local_part @ at_sign # domain)"
    unfolding domain_def using last_split_chr_suffix by blast
  have whole: "at_sign \<notin> set email \<longrightarrow> domain = email"
    unfolding domain_def by (simp add: split_chr_no_sep)
  have trace: "fst (validate_email_domain w email) = [Resolve domain (ascii ''MX'')]"
    by (simp add: validate_email_domain_def domain_def Let_def)
  have ok: "\<forall>answer. dns_resolve w domain (ascii ''MX'') = Inr answer \<longrightarrow>
          snd (validate_email_domain w email) = Inr True"
    by (simp add: validate_email_domain_def domain_def Let_def)
  have bad: "\<forall>e. dns_resolve w domain (ascii ''MX'') = Inl e \<longrightarrow>
          snd (validate_email_domain w email) =
            Inl (HTTPException 400
                  (ascii ''Domain '' @ [apostrophe] @ domain @ [apostrophe] @
                   ascii '' has no MX records or cannot receive email''))"
    by (simp add: validate_email_domain_def domain_def Let_def)
  from clean suffix whole trace ok bad show ?thesis by blast
qed

theorem validate_email_domain_mx_witness:
  "last (split_chr at_sign (ascii ''first@last@example.com'')) = ascii ''example.com''
   \<and> validate_email_domain
        (example_world None None (Inr [ascii ''mx.example.com'']) (Inr (PDict []))
           (Inl (example_exception [])))
        (ascii ''first@last@example.com'') =
       ([Resolve (ascii ''example.com'') (ascii ''MX'')], Inr True)
   \<and> validate_email_domain
        (example_world None None (Inl (example_exception [])) (Inr (PDict []))
           (Inl (example_exception [])))
        (ascii ''first@last@example.com'') =
       ([Resolve (ascii ''example.com'') (ascii ''MX'')],
        Inl (HTTPException 400
              (ascii ''Domain 'example.com' has no MX records or cannot receive email'')))"
proof -
  let ?email = "ascii ''first@last@example.com''"
  let ?up = "example_world None None (Inr [ascii ''mx.example.com'']) (Inr (PDict []))
               (Inl (example_exception []))"
  let ?down = "example_world None None (Inl (example_exception [])) (Inr (PDict []))
               (Inl (example_exception []))"
  have dom: "last (split_chr at_sign ?email) = ascii ''example.com''"
    by (simp add: ascii_def at_sign_def)
  have up: "dns_resolve ?up (ascii ''example.com'') (ascii ''MX'') = Inr [ascii ''mx.example.com'']"
    by (simp add: example_world_def)
  have down: "dns_resolve ?down (ascii ''example.com'') (ascii ''MX'') = Inl (example_exception [])"
    by (simp add: example_world_def)
  have msg: "ascii ''Domain '' @ [apostrophe] @ ascii ''example.com'' @ [apostrophe] @
               ascii '' has no MX records or cannot receive email'' =
             ascii ''Domain 'example.com' has no MX records or cannot receive email''"
    by (simp add: ascii_def apostrophe_def)
  from validate_email_domain_mx [of ?email ?up] dom up
  have r1: "validate_email_domain ?up ?email = ([Resolve (ascii ''example.com'') (ascii ''MX'')], Inr True)"
    by (simp add: prod_eq_iff)
  from validate_email_domain_mx [of ?email ?down] dom down msg
  have r2: "validate_email_domain ?down ?email =
       ([Resolve (ascii ''example.com'') (ascii ''MX'')],
        Inl (HTTPException 400
              (ascii ''Domain 'example.com' has no MX records or cannot receive email'')))"
    by (simp add: prod_eq_iff)
  from dom r1 r2 show ?thesis by simp
qed

section \<open>The order of the checks\<close>

text \<open>
  Claim C1. The checks of \<open>send_email\<close> run in a fixed order and the first failure wins:
  with \<open>SOURCE_EMAIL\<close> unset or empty the response is 500 and neither a DNS lookup nor a
  provider call is made; otherwise, with a blank subject or body, the response is 400,
  again without DNS lookup or provider call; otherwise the MX lookup for the receiver's
  domain is made, before any provider call, and its failure gives 400 without a provider
  call. The provider's send operation is invoked exactly when all three checks pass, and
  at most once.
\<close>

theorem send_email_precondition_order:
  fixes a :: app and w :: world and req :: EmailRequest
  defines "r \<equiv> send_email a w req"
      and "src \<equiv> getenv (environ w) (ascii ''SOURCE_EMAIL'')"
      and "domain \<equiv> last (split_chr at_sign (receiver_email req))"
  shows
    "(src = None \<or> src = Some [] \<longrightarrow>
        http_status r = 500 \<and> dns_lookups (fst r) = [] \<and> provider_calls (fst r) = [])
     \<and> (src \<noteq> None \<and> src \<noteq> Some [] \<and> (strip (subject req) = [] \<or> strip (body_text req) = []) \<longrightarrow>
        http_status r = 400 \<and> dns_lookups (fst r) = [] \<and> provider_calls (fst r) = [])
     \<and> (src \<noteq> None \<and> src \<noteq> Some [] \<and> strip (subject req) \<noteq> [] \<and> strip (body_text req) \<noteq> [] \<longrightarrow>
        fst r = Getenv (ascii ''SOURCE_EMAIL'') # Resolve domain (ascii ''MX'') # provider_calls (fst r)
        \<and> ((\<exists>e. dns_resolve w domain (ascii ''MX'') = Inl e) \<longrightarrow>
              http_status r = 400 \<and> provider_calls (fst r) = []))
     \<and> (provider_calls (fst r) \<noteq> [] \<longleftrightarrow> (\<exists>source. passes_validation w req source))
     \<and> length (provider_calls (fst r)) \<le> 1"
proof (cases rule: validation_cases [where w = w and req = req])
  case unconfigured
  from send_email_unconfigured [OF this, of a req] have
    "r = ([Getenv (ascii ''SOURCE_EMAIL'')],
          Inl (HTTPException 500 (ascii ''Source email not configured in environment'')))"
    by (simp add: r_def)
  with unconfigured show ?thesis
    by (auto simp: src_def http_status_def dns_lookups_def provider_calls_def
        passes_validation_def)
next
  case (blank source)
  from send_email_blank [OF this, of a] have
    "r = ([Getenv (ascii ''SOURCE_EMAIL'')],
          Inl (HTTPException 400 (ascii ''Subject and body cannot be empty'')))"
    by (simp add: r_def)
  with blank show ?thesis
    by (auto simp: src_def http_status_def dns_lookups_def provider_calls_def
        passes_validation_def)
next
  case (no_mx source e)
  from send_email_no_mx [OF this, of a] have
    "fst r = [Getenv (ascii ''SOURCE_EMAIL''), Resolve domain (ascii ''MX'')]"
    "http_status r = 400"
    by (simp_all add: r_def domain_def http_status_def)
  with no_mx show ?thesis
    by (auto simp: src_def domain_def dns_lookups_def provider_calls_def passes_validation_def)
next
  case (valid source)
  from send_email_validated [OF this, of a] have
    "fst r = [Getenv (ascii ''SOURCE_EMAIL''), Resolve domain (ascii ''MX''),
              SendEmail (ses_client a) (send_email_kwargs source req)]"
    by (simp add: r_def domain_def)
  with valid show ?thesis
    by (auto simp: src_def domain_def dns_lookups_def provider_calls_def passes_validation_def
        split: sum.splits)
qed

theorem send_email_precondition_order_witness:
  "http_status (send_email example_app
      (example_world None None (Inr []) (Inr (PDict [])) (Inl (example_exception [])))
      (example_request [] [])) = 500
   \<and> provider_calls (fst (send_email example_app
      (example_world None None (Inr []) (Inr (PDict [])) (Inl (example_exception [])))
      (example_request [] []))) = []
   \<and> http_status (send_email example_app
      (example_world (Some (ascii ''noreply@example.org'')) None (Inl (example_exception []))
         (Inr (PDict [])) (Inl (example_exception [])))
      (example_request (ascii '' '') (ascii ''text''))) = 400
   \<and> dns_lookups (fst (send_email example_app
      (example_world (Some (ascii ''noreply@example.org'')) None (Inl (example_exception []))
         (Inr (PDict [])) (Inl (example_exception [])))
      (example_request (ascii '' '') (ascii ''text'')))) = []
   \<and> length (provider_calls (fst (send_email example_app
      (example_world (Some (ascii ''noreply@example.org'')) None (Inr []) (Inr (PDict []))
         (Inl (example_exception [])))
      (example_request (ascii ''Hello'') (ascii ''text''))))) = 1"
proof -
  let ?unset = "example_world None None (Inr []) (Inr (PDict [])) (Inl (example_exception []))"
  let ?no_mx = "example_world (Some (ascii ''noreply@example.org'')) None
                  (Inl (example_exception [])) (Inr (PDict [])) (Inl (example_exception []))"
  let ?ok = "example_world (Some (ascii ''noreply@example.org'')) None (Inr []) (Inr (PDict []))
               (Inl (example_exception []))"
  have unset: "getenv (environ ?unset) (ascii ''SOURCE_EMAIL'') = None"
    by (simp add: example_world_def getenv_def)
  have set1: "getenv (environ ?no_mx) (ascii ''SOURCE_EMAIL'') = Some (ascii ''noreply@example.org'')"
    by (simp add: example_world_def getenv_def)
  have ne: "ascii ''noreply@example.org'' \<noteq> []"
    by (simp add: ascii_def)
  have blank: "strip (subject (example_request (ascii '' '') (ascii ''text''))) = []"
    by (simp add: example_request_def strip_def ascii_def py_isspace_def)
  have valid: "passes_validation ?ok (example_request (ascii ''Hello'') (ascii ''text''))
                 (ascii ''noreply@example.org'')"
    by (simp add: passes_validation_def example_world_def example_request_def getenv_def
        strip_def ascii_def py_isspace_def)
  from send_email_precondition_order [of ?unset example_app "example_request [] []"] unset
  have p1: "http_status (send_email example_app ?unset (example_request [] [])) = 500"
    and p2: "provider_calls (fst (send_email example_app ?unset (example_request [] []))) = []"
    by simp_all
  from send_email_precondition_order
         [of ?no_mx example_app "example_request (ascii '' '') (ascii ''text'')"] set1 ne blank
  have p3: "http_status (send_email example_app ?no_mx
              (example_request (ascii '' '') (ascii ''text''))) = 400"
    and p4: "dns_lookups (fst (send_email example_app ?no_mx
              (example_request (ascii '' '') (ascii ''text'')))) = []"
    by simp_all
  from send_email_precondition_order
         [of ?ok example_app "example_request (ascii ''Hello'') (ascii ''text'')"] valid
  have "provider_calls (fst (send_email example_app ?ok
              (example_request (ascii ''Hello'') (ascii ''text'')))) \<noteq> []"
    and "length (provider_calls (fst (send_email example_app ?ok
              (example_request (ascii ''Hello'') (ascii ''text''))))) \<le> 1"
    by blast+
  then have p5: "length (provider_calls (fst (send_email example_app ?ok
              (example_request (ascii ''Hello'') (ascii ''text''))))) = 1"
    by (cases "provider_calls (fst (send_email example_app ?ok
              (example_request (ascii ''Hello'') (ascii ''text''))))") simp_all
  from p1 p2 p3 p4 p5 show ?thesis by blast
qed

section \<open>The provider's errors\<close>

text \<open>
  Claim C2 fails on the code. For a request that passes the three checks, only
  \<open>MessageRejected\<close> gets its status, 400. When the send operation raises a throttling
  error (an instance of none of the named classes, since the client has no class
  \<open>ThrottlingException\<close>), \<open>NoCredentialsError\<close>, \<open>PartialCredentialsError\<close> or
  \<open>EndpointConnectionError\<close>, the handler tries the clause of line 70, whose lookup of
  \<open>ThrottlingException\<close> raises \<open>AttributeError\<close>; the response is 500, where the claim
  says 429, 401, 401 and 503.
\<close>

theorem send_email_provider_error_status_bug:
  "map (\<lambda>cs. http_status (send_email example_app
              (example_world (Some (ascii ''noreply@example.org'')) None (Inr [])
                 (Inl (example_exception cs)) (Inl (example_exception [])))
              (example_request (ascii ''Hello'') (ascii ''text''))))
     [[MessageRejected], [], [NoCredentialsError], [PartialCredentialsError],
      [EndpointConnectionError]] = [400, 500, 500, 500, 500]
   \<and> snd (send_email example_app
              (example_world (Some (ascii ''noreply@example.org'')) None (Inr [])
                 (Inl (example_exception [NoCredentialsError])) (Inl (example_exception [])))
              (example_request (ascii ''Hello'') (ascii ''text''))) =
       Inl (AttributeError (ascii ''ThrottlingException''))"
proof -
  have res: "snd (send_email example_app
              (example_world (Some (ascii ''noreply@example.org'')) None (Inr [])
                 (Inl (example_exception cs)) (Inl (example_exception [])))
              (example_request (ascii ''Hello'') (ascii ''text''))) =
           Inl (if isinstance (example_exception cs) MessageRejected then
                  HTTPException 400
                    (ascii ''Email rejected by AWS SES (unverified sender/recipient or invalid content)'')
                else AttributeError (ascii ''ThrottlingException''))" for cs
    by (rule send_email_provider_raises [OF example_valid example_provider])
  have inst: "isinstance (example_exception cs) c \<longleftrightarrow> c \<in> set cs" for cs c
    by (simp add: isinstance_def example_exception_def)
  show ?thesis
    by (simp add: res inst http_status_def)
qed

text \<open>
  Claim C6 fails on the code, by the same defect. For a request that passes the three
  checks, when the send operation raises an exception that is an instance of none of the
  named classes, the clause of line 89 is not reached: the lookup of line 70 raises
  \<open>AttributeError\<close> first, so the response is a 500 without the detail
  \<open>Unexpected error: \<close> and \<open>str\<close> of the exception. And 500 is also the response when
  a named class matches, as for \<open>EndpointConnectionError\<close>.
\<close>

theorem send_email_uncategorized_error_bug:
  "snd (send_email example_app
     (example_world (Some (ascii ''noreply@example.org'')) None (Inr [])
        (Inl (example_exception [])) (Inl (example_exception [])))
     (example_request (ascii ''Hello'') (ascii ''text''))) =
   Inl (AttributeError (ascii ''ThrottlingException''))
   \<and> snd (send_email example_app
     (example_world (Some (ascii ''noreply@example.org'')) None (Inr [])
        (Inl (example_exception [])) (Inl (example_exception [])))
     (example_request (ascii ''Hello'') (ascii ''text''))) \<noteq>
   Inl (HTTPException 500 (ascii ''Unexpected error: '' @ exc_str (example_exception [])))
   \<and> http_status (send_email example_app
     (example_world (Some (ascii ''noreply@example.org'')) None (Inr [])
        (Inl (example_exception [EndpointConnectionError])) (Inl (example_exception [])))
     (example_request (ascii ''Hello'') (ascii ''text''))) = 500"
proof -
  have res: "snd (send_email example_app
              (example_world (Some (ascii ''noreply@example.org'')) None (Inr [])
                 (Inl (example_exception cs)) (Inl (example_exception [])))
              (example_request (ascii ''Hello'') (ascii ''text''))) =
           Inl (if isinstance (example_exception cs) MessageRejected then
                  HTTPException 400
                    (ascii ''Email rejected by AWS SES (unverified sender/recipient or invalid content)'')
                else AttributeError (ascii ''ThrottlingException''))" for cs
    by (rule send_email_provider_raises [OF example_valid example_provider])
  have inst: "isinstance (example_exception cs) c \<longleftrightarrow> c \<in> set cs" for cs c
    by (simp add: isinstance_def example_exception_def)
  show ?thesis
    by (simp add: res inst http_status_def)
qed

section \<open>The successful send\<close>

text \<open>
  Claim C5. For a request that passes the three checks and whose send operation returns,
  the handler returns (status 200) the message \<open>Email successfully sent to \<close> followed by
  the receiver address of the request.
\<close>

theorem send_email_success_message:
  assumes valid: "passes_validation w req source"
      and sent: "provider_send w (ses_client a) (send_email_kwargs source req) = Inr v"
  shows "http_status (send_email a w req) = 200
         \<and> snd (send_email a w req) =
             Inr (PDict [(ascii ''message'',
                    PStr (ascii ''Email successfully sent to '' @ receiver_email req))])"
  using send_email_validated [OF valid, of a] sent
  by (simp add: http_status_def)

theorem send_email_success_message_witness:
  "snd (send_email example_app
     (example_world (Some (ascii ''noreply@example.org'')) None (Inr []) (Inr (PDict []))
        (Inl (example_exception [])))
     (example_request (ascii ''Hello'') (ascii ''text''))) =
    Inr (PDict [(ascii ''message'', PStr (ascii ''Email successfully sent to user@example.com''))])
   \<and> http_status (send_email example_app
     (example_world (Some (ascii ''noreply@example.org'')) None (Inr []) (Inr (PDict []))
        (Inl (example_exception [])))
     (example_request (ascii ''Hello'') (ascii ''text''))) = 200"
proof -
  let ?w = "example_world (Some (ascii ''noreply@example.org'')) None (Inr []) (Inr (PDict []))
              (Inl (example_exception []))"
  let ?req = "example_request (ascii ''Hello'') (ascii ''text'')"
  have msg: "ascii ''Email successfully sent to '' @ receiver_email ?req =
             ascii ''Email successfully sent to user@example.com''"
    by (simp add: example_request_def ascii_def)
  have "http_status (send_email example_app ?w ?req) = 200
         \<and> snd (send_email example_app ?w ?req) =
             Inr (PDict [(ascii ''message'',
                    PStr (ascii ''Email successfully sent to '' @ receiver_email ?req))])"
    by (rule send_email_success_message [OF example_valid example_provider])
  with msg show ?thesis by simp
qed

text \<open>
  Claim C8. Whenever \<open>send_email\<close> returns, the provider's send operation has been called
  once, on the module's client, with \<open>Source\<close> the configured source address,
  \<open>Destination\<close> holding only \<open>ToAddresses\<close> with the one receiver address of the request
  (no \<open>CcAddresses\<close>, no \<open>BccAddresses\<close>), and \<open>Message\<close> holding the subject as
  \<open>Subject.Data\<close> and the body as \<open>Body.Text.Data\<close> (no \<open>Html\<close> part), and nothing else.
\<close>

theorem send_email_provider_arguments:
  assumes ok: "snd (send_email a w req) = Inr v"
  shows "\<exists>source kwargs destination message body.
           getenv (environ w) (ascii ''SOURCE_EMAIL'') = Some source
           \<and> provider_calls (fst (send_email a w req)) = [SendEmail (ses_client a) kwargs]
           \<and> kwargs = PDict [(ascii ''Source'', PStr source),
                             (ascii ''Destination'', destination),
                             (ascii ''Message'', message)]
           \<and> destination = PDict [(ascii ''ToAddresses'', PList [PStr (receiver_email req)])]
           \<and> dict_get destination (ascii ''CcAddresses'') = None
           \<and> dict_get destination (ascii ''BccAddresses'') = None
           \<and> message = PDict [(ascii ''Subject'', PDict [(ascii ''Data'', PStr (subject req))]),
                              (ascii ''Body'', body)]
           \<and> body = PDict [(ascii ''Text'', PDict [(ascii ''Data'', PStr (body_text req))])]
           \<and> dict_get body (ascii ''Html'') = None"
proof -
  from ok obtain source where valid: "passes_validation w req source"
    by (rule send_email_returns_valid)
  then have src: "getenv (environ w) (ascii ''SOURCE_EMAIL'') = Some source"
    by (simp add: passes_validation_def)
  from send_email_validated [OF valid, of a]
  have calls: "provider_calls (fst (send_email a w req)) =
                 [SendEmail (ses_client a) (send_email_kwargs source req)]"
    by (simp add: provider_calls_def)
  have cc: "dict_get (PDict [(ascii ''ToAddresses'', PList [PStr (receiver_email req)])])
              (ascii ''CcAddresses'') = None"
    by (simp add: ascii_def)
  have bcc: "dict_get (PDict [(ascii ''ToAddresses'', PList [PStr (receiver_email req)])])
              (ascii ''BccAddresses'') = None"
    by (simp add: ascii_def)
  have html: "dict_get (PDict [(ascii ''Text'', PDict [(ascii ''Data'', PStr (body_text req))])])
              (ascii ''Html'') = None"
    by (simp add: ascii_def)
  from src calls cc bcc html show ?thesis
    unfolding send_email_kwargs_def by blast
qed

theorem send_email_provider_arguments_witness:
  "provider_calls (fst (send_email example_app
     (example_world (Some (ascii ''noreply@example.org'')) None (Inr []) (Inr (PDict []))
        (Inl (example_exception [])))
     (example_request (ascii ''Hello'') (ascii ''text'')))) =
   [SendEmail \<lparr>service_name = ascii ''ses'', region_name = ascii ''us-east-1''\<rparr>
      (PDict [(ascii ''Source'', PStr (ascii ''noreply@example.org'')),
              (ascii ''Destination'',
                 PDict [(ascii ''ToAddresses'', PList [PStr (ascii ''user@example.com'')])]),
              (ascii ''Message'',
                 PDict [(ascii ''Subject'', PDict [(ascii ''Data'', PStr (ascii ''Hello''))]),
                        (ascii ''Body'',
                           PDict [(ascii ''Text'', PDict [(ascii ''Data'', PStr (ascii ''text''))])])])])]"
proof -
  let ?w = "example_world (Some (ascii ''noreply@example.org'')) None (Inr []) (Inr (PDict []))
        (Inl (example_exception []))"
  let ?req = "example_request (ascii ''Hello'') (ascii ''text'')"
  have ok: "snd (send_email example_app ?w ?req) =
              Inr (PDict [(ascii ''message'',
                     PStr (ascii ''Email successfully sent to '' @ receiver_email ?req))])"
    using send_email_validated
            [OF example_valid [of None "[]" "Inr (PDict [])" "Inl (example_exception [])"],
             where a = example_app]
    by (simp add: example_provider)
  have src: "getenv (environ ?w) (ascii ''SOURCE_EMAIL'') = Some (ascii ''noreply@example.org'')"
    by (simp add: example_world_def getenv_def)
  have cl: "ses_client example_app = \<lparr>service_name = ascii ''ses'', region_name = ascii ''us-east-1''\<rparr>"
    by (simp add: example_app_def module_init_def load_dotenv_def getenv_default_def Let_def
        boto3_client_def)
  from send_email_provider_arguments [OF ok] src cl
  show ?thesis by (auto simp: example_request_def)
qed

section \<open>Blank subject or body\<close>

text \<open>
  Claim C4 as stated does not hold: with \<open>SOURCE_EMAIL\<close> unset, a request with a blank
  subject is answered with 500, not 400, since the configuration check comes first.
\<close>

theorem send_email_blank_rejected_counterexample:
  "strip (subject (example_request (ascii ''  '') (ascii ''text''))) = []
   \<and> http_status (send_email example_app
        (example_world None None (Inr []) (Inr (PDict [])) (Inl (example_exception [])))
        (example_request (ascii ''  '') (ascii ''text''))) = 500"
  by (simp add: send_email_def example_world_def example_request_def getenv_def http_status_def
      strip_def ascii_def py_isspace_def)

text \<open>
  Claim C4, amended. When \<open>SOURCE_EMAIL\<close> is set to a non-empty value, every request the
  handler receives whose subject or body is empty after \<open>strip()\<close> is answered with 400,
  whether or not the domain of its receiver address can receive mail: the MX lookup is
  not made, its outcome does not change the response, and the provider is not called.
\<close>

theorem send_email_blank_rejected:
  assumes configured: "getenv (environ w) (ascii ''SOURCE_EMAIL'') = Some source" "source \<noteq> []"
      and blank: "strip (subject req) = [] \<or> strip (body_text req) = []"
  shows "http_status (send_email a w req) = 400
         \<and> snd (send_email a w req) =
             Inl (HTTPException 400 (ascii ''Subject and body cannot be empty''))
         \<and> dns_lookups (fst (send_email a w req)) = []
         \<and> provider_calls (fst (send_email a w req)) = []
         \<and> (\<forall>lookup. send_email a (w\<lparr>dns_resolve := lookup\<rparr>) req = send_email a w req)"
proof -
  have "getenv (environ (w\<lparr>dns_resolve := lookup\<rparr>)) (ascii ''SOURCE_EMAIL'') = Some source"
    for lookup
    using configured(1) by simp
  from send_email_blank [OF this configured(2) blank, where a = a]
  have "send_email a (w\<lparr>dns_resolve := lookup\<rparr>) req =
          ([Getenv (ascii ''SOURCE_EMAIL'')],
           Inl (HTTPException 400 (ascii ''Subject and body cannot be empty'')))" for lookup .
  with send_email_blank [OF configured blank, of a] show ?thesis
    by (simp add: http_status_def dns_lookups_def provider_calls_def)
qed

theorem send_email_blank_rejected_witness:
  "http_status (send_email example_app
      (example_world (Some (ascii ''noreply@example.org'')) None (Inl (example_exception []))
         (Inr (PDict [])) (Inl (example_exception [])))
      (example_request (ascii ''Hello'') [9, 32, 160, 8195, 12288])) = 400
   \<and> http_status (send_email example_app
      (example_world (Some (ascii ''noreply@example.org'')) None (Inr [ascii ''mx.example.com''])
         (Inr (PDict [])) (Inl (example_exception [])))
      (example_request (ascii ''Hello'') [9, 32, 160, 8195, 12288])) = 400
   \<and> dns_lookups (fst (send_email example_app
      (example_world (Some (ascii ''noreply@example.org'')) None (Inr [ascii ''mx.example.com''])
         (Inr (PDict [])) (Inl (example_exception [])))
      (example_request (ascii ''Hello'') [9, 32, 160, 8195, 12288]))) = []"
proof -
  let ?w = "\<lambda>dns. example_world (Some (ascii ''noreply@example.org'')) None dns
         (Inr (PDict [])) (Inl (example_exception []))"
  let ?req = "example_request (ascii ''Hello'') [9, 32, 160, 8195, 12288]"
  have c1: "getenv (environ (?w dns)) (ascii ''SOURCE_EMAIL'') = Some (ascii ''noreply@example.org'')"
    for dns
    by (simp add: example_world_def getenv_def)
  have c2: "ascii ''noreply@example.org'' \<noteq> []"
    by (simp add: ascii_def)
  have b: "strip (subject ?req) = [] \<or> strip (body_text ?req) = []"
    by (simp add: example_request_def strip_def py_isspace_def)
  have step: "http_status (send_email example_app (?w dns) ?req) = 400
              \<and> dns_lookups (fst (send_email example_app (?w dns) ?req)) = []" for dns
    using send_email_blank_rejected [OF c1 c2 b, where a = example_app] by simp
  from step [of "Inl (example_exception [])"] step [of "Inr [ascii ''mx.example.com'']"]
  show ?thesis by simp
qed

section \<open>The connectivity probe\<close>

text \<open>
  Claim C7. Every call of \<open>test_aws\<close> performs one HTTP GET, with a timeout of 5 seconds,
  of \<open>https://email.<region>.amazonaws.com\<close> for the region of the module; when the GET
  returns, the handler returns (status 200) the status code of the answer and the first
  100 characters of its body; when the GET raises, whatever the exception, the handler
  raises an \<open>HTTPException\<close> of status 500 with the detail \<open>Network test failed: \<close>
  followed by \<open>str\<close> of the exception.
\<close>

theorem test_aws_probe:
  fixes a :: app and w :: world
  defines "url \<equiv> ascii ''https://email.'' @ region a @ ascii ''.amazonaws.com''"
  shows "fst (test_aws a w) = [HttpGet url 5]
         \<and> (\<forall>r. requests_get w url 5 = Inr r \<longrightarrow>
               http_status (test_aws a w) = 200
               \<and> snd (test_aws a w) =
                   Inr (PDict [(ascii ''status'', PInt (resp_status r)),
                               (ascii ''text'', PStr (take 100 (resp_text r)))]))
         \<and> (\<forall>e. requests_get w url 5 = Inl e \<longrightarrow>
               snd (test_aws a w) =
                 Inl (HTTPException 500 (ascii ''Network test failed: '' @ exc_str e)))"
  by (simp add: test_aws_def url_def Let_def http_status_def)

theorem test_aws_probe_witness:
  "test_aws example_app
     (example_world None None (Inr []) (Inr (PDict []))
        (Inr \<lparr>resp_status = 404, resp_text = replicate 150 120\<rparr>)) =
   ([HttpGet (ascii ''https://email.us-east-1.amazonaws.com'') 5],
    Inr (PDict [(ascii ''status'', PInt 404), (ascii ''text'', PStr (replicate 100 120))]))
   \<and> test_aws example_app
     (example_world None None (Inr []) (Inr (PDict [])) (Inl (example_exception []))) =
   ([HttpGet (ascii ''https://email.us-east-1.amazonaws.com'') 5],
    Inl (HTTPException 500 (ascii ''Network test failed: boom'')))"
proof -
  let ?up = "example_world None None (Inr []) (Inr (PDict []))
        (Inr \<lparr>resp_status = 404, resp_text = replicate 150 120\<rparr>)"
  let ?down = "example_world None None (Inr []) (Inr (PDict [])) (Inl (example_exception []))"
  have url: "ascii ''https://email.'' @ region example_app @ ascii ''.amazonaws.com'' =
             ascii ''https://email.us-east-1.amazonaws.com''"
    by (simp add: example_app_region ascii_def)
  have up: "requests_get ?up u t = Inr \<lparr>resp_status = 404, resp_text = replicate 150 120\<rparr>" for u t
    by (simp add: example_world_def)
  have down: "requests_get ?down u t = Inl (example_exception [])" for u t
    by (simp add: example_world_def)
  have msg: "ascii ''Network test failed: '' @ exc_str (example_exception []) =
             ascii ''Network test failed: boom''"
    by (simp add: example_exception_def ascii_def)
  from test_aws_probe [of example_app ?up] url up
  have r1: "test_aws example_app ?up =
   ([HttpGet (ascii ''https://email.us-east-1.amazonaws.com'') 5],
    Inr (PDict [(ascii ''status'', PInt 404), (ascii ''text'', PStr (replicate 100 120))]))"
    by (simp add: prod_eq_iff)
  from test_aws_probe [of example_app ?down] url down msg
  have r2: "test_aws example_app ?down =
   ([HttpGet (ascii ''https://email.us-east-1.amazonaws.com'') 5],
    Inl (HTTPException 500 (ascii ''Network test failed: boom'')))"
    by (simp add: prod_eq_iff)
  from r1 r2 show ?thesis by simp
qed

section \<open>When the configuration is read\<close>

text \<open>
  Claim C9 as stated does not hold for the region: when the module is loaded with
  \<open>AWS_REGION\<close> unset and the request is handled with \<open>AWS_REGION\<close> set to
  \<open>eu-west-1\<close>, the probe still goes to \<open>us-east-1\<close>.
\<close>

theorem configuration_read_times_counterexample:
  "getenv (environ (example_world None (Some (ascii ''eu-west-1'')) (Inr []) (Inr (PDict []))
             (Inl (example_exception [])))) (ascii ''AWS_REGION'') = Some (ascii ''eu-west-1'')
   \<and> fst (test_aws (snd (module_init Map.empty Map.empty))
          (example_world None (Some (ascii ''eu-west-1'')) (Inr []) (Inr (PDict []))
             (Inl (example_exception [])))) =
       [HttpGet (ascii ''https://email.us-east-1.amazonaws.com'') 5]"
  by (simp add: test_aws_def module_init_def load_dotenv_def getenv_default_def getenv_def
      example_world_def Let_def ascii_def)

text \<open>
  Claim C9, amended. The source address is read from the environment while the request is
  handled, once for each \<open>send_email\<close> request, and the value read then is the one passed
  to the provider. The region is read once, when the module is loaded (after
  \<open>load_dotenv\<close>, with the default \<open>us-east-1\<close>); the client is built from it, and no
  handler reads the environment for it: \<open>test_aws\<close> reads no variable at all and its
  result does not depend on the environment of the request.
\<close>

theorem configuration_read_times:
  fixes dotenv :: env and environ0 :: env and w :: world and req :: EmailRequest
  defines "a \<equiv> snd (module_init dotenv environ0)"
  shows "region a =
           getenv_default (load_dotenv dotenv environ0) (ascii ''AWS_REGION'') (ascii ''us-east-1'')
         \<and> ses_client a = boto3_client (ascii ''ses'') (region a)
         \<and> env_reads (fst (send_email a w req)) = [Getenv (ascii ''SOURCE_EMAIL'')]
         \<and> (\<forall>c k. SendEmail c k \<in> set (fst (send_email a w req)) \<longrightarrow>
               c = ses_client a \<and>
               map_option PStr (getenv (environ w) (ascii ''SOURCE_EMAIL'')) =
                 dict_get k (ascii ''Source''))
         \<and> env_reads (fst (test_aws a w)) = []
         \<and> fst (test_aws a w) =
             [HttpGet (ascii ''https://email.'' @ region a @ ascii ''.amazonaws.com'') 5]
         \<and> (\<forall>environ'. test_aws a (w\<lparr>environ := environ'\<rparr>) = test_aws a w)"
proof -
  have r: "region a =
           getenv_default (load_dotenv dotenv environ0) (ascii ''AWS_REGION'') (ascii ''us-east-1'')"
    by (simp add: a_def module_init_def Let_def)
  have c: "ses_client a = boto3_client (ascii ''ses'') (region a)"
    by (simp add: a_def module_init_def Let_def)
  have t: "fst (test_aws a w) =
             [HttpGet (ascii ''https://email.'' @ region a @ ascii ''.amazonaws.com'') 5]"
    by (simp add: test_aws_def Let_def)
  then have e: "env_reads (fst (test_aws a w)) = []"
    by (simp add: env_reads_def)
  have i: "\<forall>environ'. test_aws a (w\<lparr>environ := environ'\<rparr>) = test_aws a w"
    by (simp add: test_aws_def Let_def)
  from r c send_email_env_reads [of a w req] send_email_source_used [of _ _ a w req] e t i
  show ?thesis by blast
qed

theorem configuration_read_times_witness:
  "region (snd (module_init [ascii ''AWS_REGION'' \<mapsto> ascii ''eu-west-1''] Map.empty)) =
     ascii ''eu-west-1''
   \<and> region (snd (module_init [ascii ''AWS_REGION'' \<mapsto> ascii ''eu-west-1'']
                 [ascii ''AWS_REGION'' \<mapsto> ascii ''ap-south-1''])) = ascii ''ap-south-1''
   \<and> fst (test_aws (snd (module_init Map.empty Map.empty))
          (example_world None (Some (ascii ''eu-west-1'')) (Inr []) (Inr (PDict []))
             (Inl (example_exception [])))) =
       [HttpGet (ascii ''https://email.us-east-1.amazonaws.com'') 5]
   \<and> env_reads (fst (send_email (snd (module_init Map.empty Map.empty))
          (example_world (Some (ascii ''noreply@example.org'')) None (Inr []) (Inr (PDict []))
             (Inl (example_exception [])))
          (example_request (ascii ''Hello'') (ascii ''text'')))) = [Getenv (ascii ''SOURCE_EMAIL'')]"
proof -
  let ?d = "[ascii ''AWS_REGION'' \<mapsto> ascii ''eu-west-1'']"
  let ?e = "[ascii ''AWS_REGION'' \<mapsto> ascii ''ap-south-1'']"
  let ?w = "example_world None (Some (ascii ''eu-west-1'')) (Inr []) (Inr (PDict []))
             (Inl (example_exception []))"
  let ?v = "example_world (Some (ascii ''noreply@example.org'')) None (Inr []) (Inr (PDict []))
             (Inl (example_exception []))"
  let ?req = "example_request (ascii ''Hello'') (ascii ''text'')"
  have g1: "getenv_default (load_dotenv ?d Map.empty) (ascii ''AWS_REGION'') (ascii ''us-east-1'') =
              ascii ''eu-west-1''"
    by (simp add: getenv_default_def load_dotenv_def)
  have g2: "getenv_default (load_dotenv ?d ?e) (ascii ''AWS_REGION'') (ascii ''us-east-1'') =
              ascii ''ap-south-1''"
    by (simp add: getenv_default_def load_dotenv_def)
  have g3: "getenv_default (load_dotenv Map.empty Map.empty) (ascii ''AWS_REGION'')
              (ascii ''us-east-1'') = ascii ''us-east-1''"
    by (simp add: getenv_default_def load_dotenv_def)
  have url: "ascii ''https://email.'' @ ascii ''us-east-1'' @ ascii ''.amazonaws.com'' =
             ascii ''https://email.us-east-1.amazonaws.com''"
    by (simp add: ascii_def)
  from configuration_read_times [of ?d Map.empty ?w ?req] g1
  have p1: "region (snd (module_init ?d Map.empty)) = ascii ''eu-west-1''" by simp
  from configuration_read_times [of ?d ?e ?w ?req] g2
  have p2: "region (snd (module_init ?d ?e)) = ascii ''ap-south-1''" by simp
  from configuration_read_times [of Map.empty Map.empty ?w ?req] g3 url
  have p3: "fst (test_aws (snd (module_init Map.empty Map.empty)) ?w) =
       [HttpGet (ascii ''https://email.us-east-1.amazonaws.com'') 5]" by simp
  from configuration_read_times [of Map.empty Map.empty ?v ?req]
  have p4: "env_reads (fst (send_email (snd (module_init Map.empty Map.empty)) ?v ?req)) =
              [Getenv (ascii ''SOURCE_EMAIL'')]" by blast
  from p1 p2 p3 p4 show ?thesis by blast
qed

end
